theory Spec2Isabelle
  imports Main
begin

section \<open>JavaScript values used by the session store\<close>

text \<open>
  Exceptions are values. A promise or a call that may throw is a sum: \<open>Inl\<close> carries the
  exception, \<open>Inr\<close> the result.
\<close>

datatype exn = Error string | SyntaxError string | TypeError string | Rejected string

datatype Role = role_admin | role_user

text \<open>
  The \<open>User\<close> interface of AuthContext.tsx. The field \<open>id\<close> is written \<open>id'\<close>.
  The interface declares it a string; \<open>login\<close> computes it as \<open>userData._id || userData.id\<close>,
  which is undefined when the response carries neither, so it is optional here.
\<close>

record User =
  id' :: "string option"
  name :: string
  email :: string
  phone :: "string option"
  role :: Role
  startDate :: "string option"

text \<open>A user record as the remote API sends it (typed \<open>any\<close> in the source).\<close>

record RawUser =
  raw__id :: "string option"
  raw_id :: "string option"
  raw_name :: string
  raw_email :: string
  raw_phone :: "string option"
  raw_role :: Role
  raw_startDate :: "string option"
  raw_department :: "string option"

text \<open>Truthiness of a string, and \<open>a || b\<close> on possibly undefined strings.\<close>

definition truthy :: "string \<Rightarrow> bool" where
  "truthy s = (s \<noteq> [])"

definition js_or :: "string option \<Rightarrow> string option \<Rightarrow> string option" where
  "js_or a b = (case a of None \<Rightarrow> b | Some s \<Rightarrow> if truthy s then Some s else b)"

text \<open>
  Modelled from the spec: the module \<open>@/lib/api\<close> is not among the sources. The spec gives
  the envelope \<open>{success, data?, error?}\<close> for every API call and the payload
  \<open>{accessToken, user}\<close> for \<open>authAPI.login\<close>; \<open>error\<close> is never read by the code modelled
  here. The callers treat what arrives as \<open>any\<close> and check nothing beyond
  \<open>success && data\<close>, so what a call resolves to may be no object at all (\<open>None\<close>), and the
  login payload may lack its \<open>user\<close>.
\<close>

record 'a Response =
  success :: bool
  data :: "'a option"

record LoginData =
  accessToken :: string
  data_user :: "RawUser option"

text \<open>
  \<open>response.success && response.data\<close>: the payload, when there is one to use. Reading
  \<open>success\<close> of \<open>null\<close> or \<open>undefined\<close> throws.
\<close>

definition usable :: "'a Response option \<Rightarrow> exn + 'a option" where
  "usable response =
     (case response of
        None \<Rightarrow> Inl (TypeError ''Cannot read properties of undefined (reading success)'')
      | Some r \<Rightarrow> Inr (if success r then data r else None))"

section \<open>The browser and the provider state\<close>

text \<open>
  \<open>window\<close> is absent when the module runs outside a browser
  (\<open>typeof window === 'undefined'\<close>); with it come \<open>localStorage\<close> and
  \<open>window.location.href\<close>.
\<close>

record Window =
  localStorage :: "string \<rightharpoonup> string"
  location_href :: string

text \<open>Every effect of the provider, in program order.\<close>

datatype event =
    SetUser "User option"
  | SetToken "string option"
  | SetLoading bool
  | SetItem string string
  | RemoveItem string
  | Navigate string
  | ConsoleError string exn

record world =
  user :: "User option"
  token :: "string option"
  loading :: bool
  window :: "Window option"
  trace :: "event list"

text \<open>The three \<open>useState\<close> initial values; the browser is whatever it is at mount.\<close>

definition initial_world :: "Window option \<Rightarrow> world" where
  "initial_world win =
     \<lparr>user = None, token = None, loading = True, window = win, trace = []\<rparr>"

definition emit :: "event \<Rightarrow> world \<Rightarrow> world" where
  "emit e w = w\<lparr>trace := trace w @ [e]\<rparr>"

definition setUser :: "User option \<Rightarrow> world \<Rightarrow> world" where
  "setUser u w = emit (SetUser u) (w\<lparr>user := u\<rparr>)"

definition setToken :: "string option \<Rightarrow> world \<Rightarrow> world" where
  "setToken t w = emit (SetToken t) (w\<lparr>token := t\<rparr>)"

definition setLoading :: "bool \<Rightarrow> world \<Rightarrow> world" where
  "setLoading b w = emit (SetLoading b) (w\<lparr>loading := b\<rparr>)"

definition console_error :: "string \<Rightarrow> exn \<Rightarrow> world \<Rightarrow> world" where
  "console_error msg err w = emit (ConsoleError msg err) w"

text \<open>
  The storage and navigation calls. The source makes them only under the
  \<open>typeof window !== 'undefined'\<close> guard, and so do the definitions below.
\<close>

definition getItem :: "Window \<Rightarrow> string \<Rightarrow> string option" where
  "getItem win k = localStorage win k"

definition setItem :: "string \<Rightarrow> string \<Rightarrow> world \<Rightarrow> world" where
  "setItem k v w =
     emit (SetItem k v)
       (w\<lparr>window := map_option (\<lambda>win. win\<lparr>localStorage := (localStorage win)(k \<mapsto> v)\<rparr>) (window w)\<rparr>)"

definition removeItem :: "string \<Rightarrow> world \<Rightarrow> world" where
  "removeItem k w =
     emit (RemoveItem k)
       (w\<lparr>window := map_option (\<lambda>win. win\<lparr>localStorage := (localStorage win)(k := None)\<rparr>) (window w)\<rparr>)"

definition navigate :: "string \<Rightarrow> world \<Rightarrow> world" where
  "navigate url w =
     emit (Navigate url)
       (w\<lparr>window := map_option (\<lambda>win. win\<lparr>location_href := url\<rparr>) (window w)\<rparr>)"

text \<open>
  The collaborators the provider calls: the two JSON builtins and \<open>authAPI.login\<close>.
  \<open>JSON.parse\<close> throws on malformed text and may return \<open>null\<close>; its result is read
  through the \<open>User | null\<close> type of the state it is stored in.
\<close>

record env =
  JSON_parse :: "string \<Rightarrow> exn + User option"
  JSON_stringify :: "User \<Rightarrow> string"
  authAPI_login :: "string \<Rightarrow> string \<Rightarrow> exn + LoginData Response option"

section \<open>AuthContext.tsx\<close>

subsection \<open>useAuth\<close>

text \<open>
  \<open>useContext\<close> yields the value of the nearest enclosing provider, or the default the
  context was created with (\<open>undefined\<close>) when there is none. The enclosing providers are a
  list, innermost first.
\<close>

definition useContext :: "'a list \<Rightarrow> 'a option" where
  "useContext providers = (case providers of [] \<Rightarrow> None | v # _ \<Rightarrow> Some v)"

definition useAuth :: "'a list \<Rightarrow> exn + 'a" where
  "useAuth providers =
     (case useContext providers of
        None \<Rightarrow> Inl (Error ''useAuth must be used within an AuthProvider'')
      | Some context \<Rightarrow> Inr context)"

subsection \<open>The mount effect (initialize)\<close>

text \<open>
  The \<open>try\<close> block of the effect: \<open>setToken(storedToken)\<close> runs first, then
  \<open>JSON.parse(storedUser)\<close> is evaluated, and only if it returns is \<open>setUser\<close> called.
\<close>

definition restore_try :: "env \<Rightarrow> string \<Rightarrow> string \<Rightarrow> world \<Rightarrow> world \<times> (exn + unit)" where
  "restore_try env storedToken storedUser w =
     (let w1 = setToken (Some storedToken) w in
      case JSON_parse env storedUser of
        Inl err \<Rightarrow> (w1, Inl err)
      | Inr parsed \<Rightarrow> (setUser parsed w1, Inr ()))"

definition restore :: "env \<Rightarrow> world \<Rightarrow> world" where
  "restore env w =
     (case window w of
        None \<Rightarrow> w
      | Some win \<Rightarrow>
          (case getItem win ''authToken'' of
             None \<Rightarrow> w
           | Some storedToken \<Rightarrow>
               (case getItem win ''userData'' of
                  None \<Rightarrow> w
                | Some storedUser \<Rightarrow>
                    if truthy storedToken \<and> truthy storedUser then
                      (case restore_try env storedToken storedUser w of
                         (w1, Inr _) \<Rightarrow> w1
                       | (w1, Inl err) \<Rightarrow>
                           removeItem ''userData''
                             (removeItem ''authToken''
                               (console_error ''Error parsing stored user data:'' err w1)))
                    else w)))"

definition initialize :: "env \<Rightarrow> world \<Rightarrow> world" where
  "initialize env w = setLoading False (restore env w)"

subsection \<open>login\<close>

text \<open>
  The \<open>try\<close> block of \<open>login\<close>. It is left with \<open>Inl\<close> when the \<open>await\<close> rejects, when
  \<open>result.success\<close> is read of no object, and when the payload has no \<open>user\<close>: then
  \<open>setToken(accessToken)\<close> has already run and evaluating \<open>userData._id\<close> for the argument
  of \<open>setUser\<close> throws.
\<close>

definition login_try :: "env \<Rightarrow> string \<Rightarrow> string \<Rightarrow> world \<Rightarrow> world \<times> (exn + bool)" where
  "login_try env email' password w =
     (let w1 = setLoading True w in
      case authAPI_login env email' password of
        Inl err \<Rightarrow> (w1, Inl err)
      | Inr result \<Rightarrow>
          (case usable result of
             Inl err \<Rightarrow> (w1, Inl err)
           | Inr None \<Rightarrow> (w1, Inr False)
           | Inr (Some d) \<Rightarrow>
               (let w2 = setToken (Some (accessToken d)) w1 in
                case data_user d of
                  None \<Rightarrow>
                    (w2, Inl (TypeError ''Cannot read properties of undefined (reading _id)''))
                | Some userData \<Rightarrow>
                    (let identity = \<lparr>id' = js_or (raw__id userData) (raw_id userData),
                                     name = raw_name userData,
                                     email = raw_email userData,
                                     phone = raw_phone userData,
                                     role = raw_role userData,
                                     startDate = raw_startDate userData\<rparr>;
                         w3 = setUser (Some identity) w2;
                         w4 = (if window w3 \<noteq> None then
                                 setItem ''userData'' (JSON_stringify env identity)
                                   (setItem ''authToken'' (accessToken d) w3)
                               else w3)
                     in (w4, Inr True)))))"

text \<open>\<open>catch\<close> turns any exception into \<open>false\<close>; \<open>finally\<close> clears the busy flag.\<close>

definition login :: "env \<Rightarrow> string \<Rightarrow> string \<Rightarrow> world \<Rightarrow> world \<times> (exn + bool)" where
  "login env email' password w =
     (case login_try env email' password w of
        (w1, Inl err) \<Rightarrow> (setLoading False (console_error ''Login error:'' err w1), Inr False)
      | (w1, Inr b) \<Rightarrow> (setLoading False w1, Inr b))"

subsection \<open>logout\<close>

definition logout :: "world \<Rightarrow> world" where
  "logout w =
     (let w1 = setUser None w;
          w2 = setToken None w1
      in if window w2 \<noteq> None then
           navigate ''/auth/login'' (removeItem ''userData'' (removeItem ''authToken'' w2))
         else w2)"

subsection \<open>Session states\<close>

definition Authenticated :: "world \<Rightarrow> bool" where
  "Authenticated w = (user w \<noteq> None \<and> token w \<noteq> None)"

definition Anonymous :: "world \<Rightarrow> bool" where
  "Anonymous w = (user w = None \<and> token w = None)"

definition both_or_neither :: "world \<Rightarrow> bool" where
  "both_or_neither w = ((token w = None) = (user w = None))"

text \<open>
  The states the provider can be in are those a sequence of the three operations leads to
  from \<open>initial_world\<close>, in any browser.
\<close>

datatype operation = Initialize | Login string string | Logout

fun step :: "env \<Rightarrow> operation \<Rightarrow> world \<Rightarrow> world" where
  "step env Initialize w = initialize env w"
| "step env (Login email' password) w = fst (login env email' password w)"
| "step env Logout w = logout w"

fun run :: "env \<Rightarrow> operation list \<Rightarrow> world \<Rightarrow> world" where
  "run env [] w = w"
| "run env (op # ops) w = run env ops (step env op w)"

subsection \<open>Reading the trace\<close>

text \<open>The events an operation added, and the kinds of event the properties count.\<close>

definition emitted :: "world \<Rightarrow> world \<Rightarrow> event list" where
  "emitted before after = drop (length (trace before)) (trace after)"

fun is_SetLoading :: "event \<Rightarrow> bool" where
  "is_SetLoading (SetLoading _) = True"
| "is_SetLoading _ = False"

fun is_Navigate :: "event \<Rightarrow> bool" where
  "is_Navigate (Navigate _) = True"
| "is_Navigate _ = False"

fun is_SetItem :: "event \<Rightarrow> bool" where
  "is_SetItem (SetItem _ _) = True"
| "is_SetItem _ = False"

section \<open>The admin dashboard\<close>

text \<open>Records as the API sends them (\<open>any\<close> in the source) and the view models.\<close>

record RawTask =
  rt__id :: "string option"
  rt_id :: "string option"
  rt_title :: string
  rt_description :: string
  rt_status :: string
  rt_dueDate :: string
  rt_type :: "string option"
  rt_category :: "string option"
  rt_priority :: "string option"
  rt_assignedTo :: "string option"

record RawForm =
  rf__id :: "string option"
  rf_id :: "string option"
  rf_title :: string
  rf_description :: string
  rf_assignedTo :: string
  rf_fields :: "string list option"
  rf_createdAt :: string

text \<open>
  A payload the code calls \<open>.map\<close> on is typed \<open>any\<close>: it is an array, whose elements are
  records or \<open>null\<close>, or it is something else, which has no \<open>map\<close>.
\<close>

datatype 'a payload = Array "'a option list" | NotArray

text \<open>
  \<open>formsResponse.data\<close> is an object, with a \<open>forms\<close> property or without, or it is the
  array itself.
\<close>

datatype FormsPayload = FormsObject "RawForm payload option" | FormsArray "RawForm option list"

record Employee =
  emp_id :: "string option"
  emp_name :: string
  emp_email :: string
  emp_phone :: "string option"
  emp_role :: Role
  emp_startDate :: "string option"
  emp_department :: "string option"

record Task =
  t_id :: "string option"
  t_title :: string
  t_description :: string
  t_status :: string
  t_dueDate :: string
  t_category :: "string option"
  t_priority :: string
  t_userId :: "string option"

record Form =
  f_id :: "string option"
  f_title :: string
  f_description :: string
  f_assignedTo :: string
  f_fields :: "string list"
  f_createdAt :: string

record dashboard =
  employees :: "Employee list"
  allTasks :: "Task list"
  forms :: "Form list"
  dash_loading :: bool

definition initial_dashboard :: dashboard where
  "initial_dashboard = \<lparr>employees = [], allTasks = [], forms = [], dash_loading = False\<rparr>"

text \<open>The three \<open>map\<close> callbacks of \<open>loadDashboardData\<close>.\<close>

definition mapUser :: "RawUser \<Rightarrow> Employee" where
  "mapUser u =
     \<lparr>emp_id = js_or (raw__id u) (raw_id u),
      emp_name = raw_name u,
      emp_email = raw_email u,
      emp_phone = raw_phone u,
      emp_role = raw_role u,
      emp_startDate = raw_startDate u,
      emp_department = raw_department u\<rparr>"

definition mapTask :: "RawTask \<Rightarrow> Task" where
  "mapTask t =
     \<lparr>t_id = js_or (rt__id t) (rt_id t),
      t_title = rt_title t,
      t_description = rt_description t,
      t_status = rt_status t,
      t_dueDate = rt_dueDate t,
      t_category = js_or (rt_type t) (rt_category t),
      t_priority = (case js_or (rt_priority t) (Some ''medium'') of None \<Rightarrow> ''medium'' | Some p \<Rightarrow> p),
      t_userId = rt_assignedTo t\<rparr>"

definition mapForm :: "RawForm \<Rightarrow> Form" where
  "mapForm f =
     \<lparr>f_id = js_or (rf__id f) (rf_id f),
      f_title = rf_title f,
      f_description = rf_description f,
      f_assignedTo = rf_assignedTo f,
      f_fields = (case rf_fields f of None \<Rightarrow> [] | Some fs \<Rightarrow> fs),
      f_createdAt = rf_createdAt f\<rparr>"

text \<open>
  \<open>Promise.all\<close> of three promises: fulfilled with the three results when all are
  fulfilled, rejected as soon as one is. When several reject, which rejection wins depends on
  timing; the caller only logs it, and the leftmost is taken here.
\<close>

definition Promise_all3 :: "exn + 'a \<Rightarrow> exn + 'b \<Rightarrow> exn + 'c \<Rightarrow> exn + ('a \<times> 'b \<times> 'c)" where
  "Promise_all3 p q r =
     (case p of
        Inl e \<Rightarrow> Inl e
      | Inr a \<Rightarrow>
          (case q of
             Inl e \<Rightarrow> Inl e
           | Inr b \<Rightarrow> (case r of Inl e \<Rightarrow> Inl e | Inr c \<Rightarrow> Inr (a, b, c))))"

text \<open>
  \<open>payload.map(callback)\<close>, where the callback reads properties of its argument: it throws
  when the payload is no array, and at the first element that is \<open>null\<close>.
\<close>

fun map_elements :: "('a \<Rightarrow> 'b) \<Rightarrow> 'a option list \<Rightarrow> exn + 'b list" where
  "map_elements f [] = Inr []"
| "map_elements f (None # xs) = Inl (TypeError ''Cannot read properties of null (reading _id)'')"
| "map_elements f (Some x # xs) =
     (case map_elements f xs of Inl e \<Rightarrow> Inl e | Inr ys \<Rightarrow> Inr (f x # ys))"

definition js_map :: "('a \<Rightarrow> 'b) \<Rightarrow> 'a payload \<Rightarrow> exn + 'b list" where
  "js_map f p =
     (case p of
        NotArray \<Rightarrow> Inl (TypeError ''map is not a function'')
      | Array xs \<Rightarrow> map_elements f xs)"

text \<open>\<open>formsResponse.data.forms || formsResponse.data\<close>; an array is truthy even when empty.\<close>

fun formsData :: "FormsPayload \<Rightarrow> RawForm payload" where
  "formsData (FormsObject (Some fs)) = fs"
| "formsData (FormsObject None) = NotArray"
| "formsData (FormsArray fs) = Array fs"

text \<open>
  What each of the three \<open>if\<close> blocks computes before it calls its setter: nothing when the
  response is not usable, the mapped view models when it is; reading the response or mapping
  the payload may throw.
\<close>

definition usersOutcome :: "RawUser payload Response option \<Rightarrow> exn + Employee list option" where
  "usersOutcome usersResponse =
     (case usable usersResponse of
        Inl e \<Rightarrow> Inl e
      | Inr None \<Rightarrow> Inr None
      | Inr (Some d) \<Rightarrow>
          (case js_map mapUser d of Inl e \<Rightarrow> Inl e | Inr users \<Rightarrow> Inr (Some users)))"

definition tasksOutcome :: "RawTask payload Response option \<Rightarrow> exn + Task list option" where
  "tasksOutcome tasksResponse =
     (case usable tasksResponse of
        Inl e \<Rightarrow> Inl e
      | Inr None \<Rightarrow> Inr None
      | Inr (Some d) \<Rightarrow>
          (case js_map mapTask d of Inl e \<Rightarrow> Inl e | Inr tasks \<Rightarrow> Inr (Some tasks)))"

definition formsOutcome :: "FormsPayload Response option \<Rightarrow> exn + Form list option" where
  "formsOutcome formsResponse =
     (case usable formsResponse of
        Inl e \<Rightarrow> Inl e
      | Inr None \<Rightarrow> Inr None
      | Inr (Some d) \<Rightarrow>
          (case js_map mapForm (formsData d) of Inl e \<Rightarrow> Inl e | Inr fs \<Rightarrow> Inr (Some fs)))"

text \<open>
  The statements of the \<open>try\<close> block after the \<open>await\<close>, in order; the first throw leaves
  the block with what has been set so far.
\<close>

definition load_try ::
  "RawUser payload Response option \<Rightarrow> RawTask payload Response option
     \<Rightarrow> FormsPayload Response option \<Rightarrow> dashboard \<Rightarrow> dashboard \<times> (exn + unit)" where
  "load_try usersResponse tasksResponse formsResponse d1 =
     (case usersOutcome usersResponse of
        Inl e \<Rightarrow> (d1, Inl e)
      | Inr users \<Rightarrow>
          (let d2 = (case users of None \<Rightarrow> d1 | Some us \<Rightarrow> d1\<lparr>employees := us\<rparr>) in
           case tasksOutcome tasksResponse of
             Inl e \<Rightarrow> (d2, Inl e)
           | Inr tasks \<Rightarrow>
               (let d3 = (case tasks of None \<Rightarrow> d2 | Some ts \<Rightarrow> d2\<lparr>allTasks := ts\<rparr>) in
                case formsOutcome formsResponse of
                  Inl e \<Rightarrow> (d3, Inl e)
                | Inr fs \<Rightarrow>
                    ((case fs of None \<Rightarrow> d3 | Some f \<Rightarrow> d3\<lparr>forms := f\<rparr>), Inr ()))))"

text \<open>
  \<open>loadDashboardData\<close>: the \<open>try\<close> block is left with \<open>Inl\<close> when \<open>Promise.all\<close> rejects
  or when a later statement throws; \<open>catch\<close> empties the three collections; \<open>finally\<close>
  clears the busy flag.
\<close>

definition loadDashboardData ::
  "exn + RawUser payload Response option \<Rightarrow> exn + RawTask payload Response option
     \<Rightarrow> exn + FormsPayload Response option \<Rightarrow> dashboard \<Rightarrow> dashboard" where
  "loadDashboardData getAllUsers getAllTasks getAllForms d =
     (let d1 = d\<lparr>dash_loading := True\<rparr>;
          tried =
            (case Promise_all3 getAllUsers getAllTasks getAllForms of
               Inl err \<Rightarrow> (d1, Inl err)
             | Inr (usersResponse, tasksResponse, formsResponse) \<Rightarrow>
                 load_try usersResponse tasksResponse formsResponse d1);
          d5 =
            (case snd tried of
               Inl err \<Rightarrow> (fst tried)\<lparr>employees := [], allTasks := [], forms := []\<rparr>
             | Inr _ \<Rightarrow> fst tried)
      in d5\<lparr>dash_loading := False\<rparr>)"

section \<open>Onboarding progress\<close>

text \<open>
  Modelled from the spec: a percentage, whose division faults on a zero denominator unless
  the caller guards it ("division by zero must yield a defined result, never a fault").
\<close>

definition percentage :: "nat \<Rightarrow> nat \<Rightarrow> exn + nat" where
  "percentage part whole =
     (if whole = 0 then Inl (Error ''division by zero'') else Inr ((100 * part) div whole))"

text \<open>
  Modelled from the spec: \<open>calculateOnboardingProgress\<close> lives in \<open>@/lib/onboardingUtils\<close>,
  which is not among the sources; only its call sites are. The spec says it computes the
  percentage of done items over a task collection and that the empty collection yields 0
  rather than a fault. Which tasks count as done is not said, so the test is a parameter;
  the quotient is the whole-number percentage.
\<close>

definition calculateOnboardingProgress :: "(Task \<Rightarrow> bool) \<Rightarrow> Task list \<Rightarrow> exn + nat" where
  "calculateOnboardingProgress isDone tasks =
     (if tasks = [] then Inr 0 else percentage (length (filter isDone tasks)) (length tasks))"

section \<open>A concrete environment for the examples\<close>

text \<open>
  The general theorems below hold for every environment. The examples run the operations in
  one fixed environment: a serialiser for identities without quotes or control characters,
  a parser that knows the documents the examples store (an identity, \<open>null\<close>) and rejects
  the truncated text \<open>{bad\<close> as the builtin does, and a server that knows one account,
  is unreachable for one address, and answers two others with nothing and with a payload
  that has no user.
\<close>

definition alice :: User where
  "alice = \<lparr>id' = Some ''1'', name = ''A'', email = ''a@x.com'', phone = None,
            role = role_user, startDate = None\<rparr>"

definition alice_raw :: RawUser where
  "alice_raw = \<lparr>raw__id = None, raw_id = Some ''1'', raw_name = ''A'', raw_email = ''a@x.com'',
                raw_phone = None, raw_role = role_user, raw_startDate = None,
                raw_department = None\<rparr>"

definition quoted :: "string \<Rightarrow> string" where
  "quoted s = [CHR 0x22] @ s @ [CHR 0x22]"

definition json_member :: "string \<Rightarrow> string option \<Rightarrow> string list" where
  "json_member k v = (case v of None \<Rightarrow> [] | Some s \<Rightarrow> [quoted k @ '':'' @ quoted s])"

fun commas :: "string list \<Rightarrow> string" where
  "commas [] = []"
| "commas [x] = x"
| "commas (x # y # ys) = x @ '','' @ commas (y # ys)"

definition fixture_stringify :: "User \<Rightarrow> string" where
  "fixture_stringify u =
     ''{'' @ commas (json_member ''id'' (id' u) @ json_member ''name'' (Some (name u))
                    @ json_member ''email'' (Some (email u)) @ json_member ''phone'' (phone u)
                    @ json_member ''role'' (Some (case role u of role_admin \<Rightarrow> ''admin'' | role_user \<Rightarrow> ''user''))
                    @ json_member ''startDate'' (startDate u)) @ ''}''"

definition fixture_parse :: "string \<Rightarrow> exn + User option" where
  "fixture_parse s =
     (if s = fixture_stringify alice then Inr (Some alice)
      else if s = ''null'' then Inr None
      else Inl (SyntaxError ''Unexpected token''))"

definition fixture_login :: "string \<Rightarrow> string \<Rightarrow> exn + LoginData Response option" where
  "fixture_login email' password =
     (if email' = ''offline@x.com'' then Inl (Rejected ''Network Error'')
      else if email' = ''empty@x.com'' then Inr None
      else if email' = ''nouser@x.com'' then
        Inr (Some \<lparr>success = True, data = Some \<lparr>accessToken = ''T'', data_user = None\<rparr>\<rparr>)
      else if email' = ''a@x.com'' \<and> password = ''secret'' then
        Inr (Some \<lparr>success = True, data = Some \<lparr>accessToken = ''T'', data_user = Some alice_raw\<rparr>\<rparr>)
      else Inr (Some \<lparr>success = False, data = None\<rparr>))"

definition fixture_env :: env where
  "fixture_env =
     \<lparr>JSON_parse = fixture_parse, JSON_stringify = fixture_stringify,
      authAPI_login = fixture_login\<rparr>"

definition browser :: "(string \<times> string) list \<Rightarrow> Window" where
  "browser items = \<lparr>localStorage = map_of items, location_href = ''/''\<rparr>"

text \<open>Stored data whose identity payload is cut short, and a session signed in as Alice.\<close>

definition corrupt_browser :: Window where
  "corrupt_browser = browser [(''authToken'', ''T''), (''userData'', ''{bad'')]"

definition signed_in :: world where
  "signed_in = run fixture_env [Login ''a@x.com'' ''secret''] (initial_world (Some (browser [])))"

definition sample_task :: RawTask where
  "sample_task =
     \<lparr>rt__id = Some ''t1'', rt_id = None, rt_title = ''Sign contract'', rt_description = ''Paper'',
      rt_status = ''pending'', rt_dueDate = ''2025-01-31'', rt_type = None,
      rt_category = Some ''hr'', rt_priority = None, rt_assignedTo = Some ''1''\<rparr>"

section \<open>Basic facts about the operations\<close>

lemmas state_ops = setUser_def setToken_def setLoading_def console_error_def emit_def
  setItem_def removeItem_def navigate_def getItem_def

lemma initial_world_fields:
  "user (initial_world win) = None" "token (initial_world win) = None"
  "loading (initial_world win) = True" "window (initial_world win) = win"
  "trace (initial_world win) = []"
  by (simp_all add: initial_world_def)

subsection \<open>The three ways the mount effect can go\<close>

lemma restore_try_throws:
  "JSON_parse env storedUser = Inl err \<Longrightarrow>
   restore_try env storedToken storedUser w = (setToken (Some storedToken) w, Inl err)"
  by (simp add: restore_try_def)

lemma restore_try_returns:
  "JSON_parse env storedUser = Inr parsed \<Longrightarrow>
   restore_try env storedToken storedUser w = (setUser parsed (setToken (Some storedToken) w), Inr ())"
  by (simp add: restore_try_def)

lemma restore_guard_fails:
  assumes "window w = Some win"
    and "localStorage win ''authToken'' = None \<or> localStorage win ''userData'' = None
         \<or> localStorage win ''authToken'' = Some [] \<or> localStorage win ''userData'' = Some []"
  shows "restore env w = w"
  using assms by (auto simp add: restore_def getItem_def truthy_def split: option.splits)

lemma restore_parse_fails:
  assumes "window w = Some win"
    and "localStorage win ''authToken'' = Some storedToken" and "storedToken \<noteq> []"
    and "localStorage win ''userData'' = Some storedUser" and "storedUser \<noteq> []"
    and "JSON_parse env storedUser = Inl err"
  shows "restore env w =
           removeItem ''userData'' (removeItem ''authToken''
             (console_error ''Error parsing stored user data:'' err (setToken (Some storedToken) w)))"
  using assms by (simp add: restore_def getItem_def truthy_def restore_try_throws)

lemma restore_parse_returns:
  assumes "window w = Some win"
    and "localStorage win ''authToken'' = Some storedToken" and "storedToken \<noteq> []"
    and "localStorage win ''userData'' = Some storedUser" and "storedUser \<noteq> []"
    and "JSON_parse env storedUser = Inr parsed"
  shows "restore env w = setUser parsed (setToken (Some storedToken) w)"
  using assms by (simp add: restore_def getItem_def truthy_def restore_try_returns)

lemma restore_no_SetLoading:
  "filter is_SetLoading (trace (restore env w)) = filter is_SetLoading (trace w)"
  by (auto simp add: restore_def restore_try_def state_ops Let_def
      split: option.splits sum.splits prod.splits)

subsection \<open>The ways a login can go\<close>

lemma login_rejected:
  "authAPI_login env e p = Inl err \<Longrightarrow>
   login env e p w =
     (setLoading False (console_error ''Login error:'' err (setLoading True w)), Inr False)"
  by (simp add: login_def login_try_def)

lemma login_no_response:
  "authAPI_login env e p = Inr None \<Longrightarrow>
   login env e p w =
     (setLoading False
        (console_error ''Login error:''
           (TypeError ''Cannot read properties of undefined (reading success)'')
           (setLoading True w)), Inr False)"
  by (simp add: login_def login_try_def usable_def)

lemma login_refused:
  "authAPI_login env e p = Inr r \<Longrightarrow> usable r = Inr None \<Longrightarrow>
   login env e p w = (setLoading False (setLoading True w), Inr False)"
  by (simp add: login_def login_try_def)

lemma login_missing_user:
  "authAPI_login env e p = Inr r \<Longrightarrow> usable r = Inr (Some d) \<Longrightarrow> data_user d = None \<Longrightarrow>
   login env e p w =
     (setLoading False
        (console_error ''Login error:''
           (TypeError ''Cannot read properties of undefined (reading _id)'')
           (setToken (Some (accessToken d)) (setLoading True w))), Inr False)"
  by (simp add: login_def login_try_def Let_def)

lemma login_accepted:
  "authAPI_login env e p = Inr r \<Longrightarrow> usable r = Inr (Some d) \<Longrightarrow> data_user d = Some u \<Longrightarrow>
   snd (login env e p w) = Inr True
   \<and> token (fst (login env e p w)) = Some (accessToken d)
   \<and> user (fst (login env e p w)) \<noteq> None"
  by (simp add: login_def login_try_def Let_def state_ops)

text \<open>\<open>login\<close> never rejects: whatever the API does, the promise is fulfilled with a boolean.\<close>

lemma login_never_throws: "\<exists>b. snd (login env e p w) = Inr b"
  by (auto simp add: login_def login_try_def Let_def split: sum.splits option.splits)

subsection \<open>The examples' environment\<close>

lemma fixture_parse_alice: "JSON_parse fixture_env (fixture_stringify alice) = Inr (Some alice)"
  by (simp add: fixture_env_def fixture_parse_def)

lemma fixture_parse_bad: "JSON_parse fixture_env ''{bad'' = Inl (SyntaxError ''Unexpected token'')"
  by (simp add: fixture_env_def fixture_parse_def fixture_stringify_def alice_def quoted_def
      json_member_def)

lemma fixture_login_refused:
  "authAPI_login fixture_env ''a@x.com'' ''wrong'' = Inr (Some \<lparr>success = False, data = None\<rparr>)"
  by (simp add: fixture_env_def fixture_login_def)

lemma fixture_login_offline:
  "authAPI_login fixture_env ''offline@x.com'' ''secret'' = Inl (Rejected ''Network Error'')"
  by (simp add: fixture_env_def fixture_login_def)

lemma fixture_login_empty:
  "authAPI_login fixture_env ''empty@x.com'' ''secret'' = Inr None"
  by (simp add: fixture_env_def fixture_login_def)

lemma fixture_login_nouser:
  "authAPI_login fixture_env ''nouser@x.com'' ''secret'' =
     Inr (Some \<lparr>success = True, data = Some \<lparr>accessToken = ''T'', data_user = None\<rparr>\<rparr>)"
  by (simp add: fixture_env_def fixture_login_def)

lemma fixture_login_accepted:
  "authAPI_login fixture_env ''a@x.com'' ''secret'' =
     Inr (Some \<lparr>success = True, data = Some \<lparr>accessToken = ''T'', data_user = Some alice_raw\<rparr>\<rparr>)"
  by (simp add: fixture_env_def fixture_login_def)

lemma signed_in_session:
  "user signed_in = Some alice \<and> token signed_in = Some ''T''"
  by (simp add: signed_in_def login_def login_try_def Let_def state_ops usable_def js_or_def
      truthy_def fixture_env_def fixture_login_def alice_def alice_raw_def initial_world_def)

lemma signed_in_window:
  "window signed_in =
     Some (browser [(''userData'', fixture_stringify alice), (''authToken'', ''T'')])"
  by (simp add: signed_in_def login_def login_try_def Let_def state_ops usable_def
      fixture_env_def fixture_login_def initial_world_def browser_def js_or_def truthy_def
      alice_def alice_raw_def)

section \<open>The session invariant\<close>

text \<open>
  \<open>logout\<close> clears token and identity together. \<open>login\<close> keeps them together unless its
  payload has no user: then the token set before the throw stays, with the identity as it
  was.
\<close>

lemma logout_both_or_neither: "both_or_neither (logout w)"
  by (simp add: logout_def Let_def state_ops both_or_neither_def)

lemma login_both_or_neither:
  assumes "both_or_neither w"
    and "\<forall>r d. authAPI_login env e p = Inr r \<longrightarrow> usable r = Inr (Some d) \<longrightarrow> data_user d \<noteq> None"
  shows "both_or_neither (fst (login env e p w))"
  using assms
  by (auto simp add: login_def login_try_def Let_def state_ops both_or_neither_def
      split: sum.splits option.splits)

lemma login_missing_user_keeps_token:
  assumes "authAPI_login env e p =
             Inr (Some \<lparr>success = True, data = Some \<lparr>accessToken = t, data_user = None\<rparr>\<rparr>)"
  shows "snd (login env e p w) = Inr False
         \<and> token (fst (login env e p w)) = Some t
         \<and> user (fst (login env e p w)) = user w"
proof -
  have "usable (Some \<lparr>success = True, data = Some \<lparr>accessToken = t, data_user = None\<rparr>\<rparr>)
          = Inr (Some \<lparr>accessToken = t, data_user = None\<rparr>)"
    by (simp add: usable_def)
  with assms have "login env e p w =
     (setLoading False
        (console_error ''Login error:''
           (TypeError ''Cannot read properties of undefined (reading _id)'')
           (setToken (Some (accessToken \<lparr>accessToken = t, data_user = None\<rparr>))
              (setLoading True w))), Inr False)"
    by (rule login_missing_user) simp
  then show ?thesis by (simp add: state_ops)
qed

text \<open>In the examples' environment: a fresh session ends with the token and no identity.\<close>

lemma login_missing_user_example:
  "snd (login fixture_env ''nouser@x.com'' ''secret'' (initial_world None)) = Inr False
   \<and> token (fst (login fixture_env ''nouser@x.com'' ''secret'' (initial_world None))) = Some ''T''
   \<and> user (fst (login fixture_env ''nouser@x.com'' ''secret'' (initial_world None))) = None"
  using login_missing_user_keeps_token [OF fixture_login_nouser, of "initial_world None"]
  by (simp add: initial_world_fields)

text \<open>
  The mount effect keeps them together only when the parse returns a record. When the parse
  throws, the token set before it stays, in every environment.
\<close>

lemma initialize_parse_failure_keeps_token:
  assumes "localStorage win ''authToken'' = Some storedToken" and "storedToken \<noteq> []"
    and "localStorage win ''userData'' = Some storedUser" and "storedUser \<noteq> []"
    and "JSON_parse env storedUser = Inl err"
  shows "token (initialize env (initial_world (Some win))) = Some storedToken
         \<and> user (initialize env (initial_world (Some win))) = None"
proof -
  have "window (initial_world (Some win)) = Some win"
    by (simp add: initial_world_def)
  then have "restore env (initial_world (Some win))
      = removeItem ''userData'' (removeItem ''authToken''
          (console_error ''Error parsing stored user data:'' err
            (setToken (Some storedToken) (initial_world (Some win)))))"
    using assms by (rule restore_parse_fails)
  then show ?thesis
    by (simp add: initialize_def state_ops initial_world_fields)
qed

text \<open>The same happens when the stored text is \<open>null\<close>: the parse returns no record.\<close>

lemma initialize_null_payload_keeps_token:
  assumes "localStorage win ''authToken'' = Some storedToken" and "storedToken \<noteq> []"
    and "localStorage win ''userData'' = Some storedUser" and "storedUser \<noteq> []"
    and "JSON_parse env storedUser = Inr None"
  shows "token (initialize env (initial_world (Some win))) = Some storedToken
         \<and> user (initialize env (initial_world (Some win))) = None"
proof -
  have "window (initial_world (Some win)) = Some win"
    by (simp add: initial_world_def)
  then have "restore env (initial_world (Some win))
      = setUser None (setToken (Some storedToken) (initial_world (Some win)))"
    using assms by (rule restore_parse_returns)
  then show ?thesis
    by (simp add: initialize_def state_ops initial_world_fields)
qed

text \<open>
  Claim C1: in every state reachable by initialize, login and logout, the token is present
  if and only if the identity is.

  The mount effect does not keep this. Its \<open>try\<close> block calls \<open>setToken(storedToken)\<close>
  before \<open>JSON.parse(storedUser)\<close> is evaluated; when the parse throws, the \<open>catch\<close> block
  removes both stored keys (its comment reads "Clear invalid data") but does not take the
  token back. Started on stored data whose identity is the truncated text \<open>{bad\<close>, the
  provider ends with the token \<open>T\<close> and no identity.
\<close>

theorem corrupt_identity_keeps_token:
  "token (run fixture_env [Initialize] (initial_world (Some corrupt_browser))) = Some ''T''
   \<and> user (run fixture_env [Initialize] (initial_world (Some corrupt_browser))) = None
   \<and> \<not> both_or_neither (run fixture_env [Initialize] (initial_world (Some corrupt_browser)))"
proof -
  have "localStorage corrupt_browser ''authToken'' = Some ''T''" "''T'' \<noteq> []"
      "localStorage corrupt_browser ''userData'' = Some ''{bad''" "''{bad'' \<noteq> []"
    by (simp_all add: browser_def corrupt_browser_def)
  then have "token (initialize fixture_env (initial_world (Some corrupt_browser))) = Some ''T''
      \<and> user (initialize fixture_env (initial_world (Some corrupt_browser))) = None"
    using fixture_parse_bad by (rule initialize_parse_failure_keeps_token)
  then show ?thesis
    by (simp add: both_or_neither_def)
qed

section \<open>Startup\<close>

text \<open>
  Claim C2: at a startup where both persisted keys are present, a stored identity that
  parses gives an Authenticated session, and a malformed one gives an Anonymous session and
  removes both keys.

  The guard of the effect is \<open>storedToken && storedUser\<close>, so a key that is present with
  the empty string counts as absent; and what is restored is whatever the parse returns.
  What holds: when both stored values are non-empty, a payload that parses to an identity
  record gives a session with the stored token and that identity, and a malformed payload
  leaves the identity unset and removes exactly the two keys from storage.
\<close>

theorem initialize_restores_or_discards:
  assumes "localStorage win ''authToken'' = Some storedToken" and "storedToken \<noteq> []"
    and "localStorage win ''userData'' = Some storedUser" and "storedUser \<noteq> []"
  shows "(JSON_parse env storedUser = Inr (Some u) \<longrightarrow>
            user (initialize env (initial_world (Some win))) = Some u
            \<and> token (initialize env (initial_world (Some win))) = Some storedToken)
         \<and> (JSON_parse env storedUser = Inl err \<longrightarrow>
            user (initialize env (initial_world (Some win))) = None
            \<and> window (initialize env (initial_world (Some win))) =
                Some (win\<lparr>localStorage := (localStorage win)(''authToken'' := None, ''userData'' := None)\<rparr>))"
proof (intro conjI impI)
  assume parsed: "JSON_parse env storedUser = Inr (Some u)"
  have "window (initial_world (Some win)) = Some win"
    by (simp add: initial_world_def)
  then have r: "restore env (initial_world (Some win))
      = setUser (Some u) (setToken (Some storedToken) (initial_world (Some win)))"
    using assms parsed by (rule restore_parse_returns)
  show "user (initialize env (initial_world (Some win))) = Some u"
    by (simp add: initialize_def r state_ops)
  show "token (initialize env (initial_world (Some win))) = Some storedToken"
    by (simp add: initialize_def r state_ops)
next
  assume thrown: "JSON_parse env storedUser = Inl err"
  have "window (initial_world (Some win)) = Some win"
    by (simp add: initial_world_def)
  then have r: "restore env (initial_world (Some win))
      = removeItem ''userData'' (removeItem ''authToken''
          (console_error ''Error parsing stored user data:'' err
            (setToken (Some storedToken) (initial_world (Some win)))))"
    using assms thrown by (rule restore_parse_fails)
  show "user (initialize env (initial_world (Some win))) = None"
    by (simp add: initialize_def r state_ops initial_world_fields)
  show "window (initialize env (initial_world (Some win))) =
          Some (win\<lparr>localStorage := (localStorage win)(''authToken'' := None, ''userData'' := None)\<rparr>)"
    by (simp add: initialize_def r state_ops initial_world_fields)
qed

text \<open>Both branches at work: Alice's stored session is restored, the truncated one discarded.\<close>

theorem initialize_restores_or_discards_witness:
  "Authenticated (initialize fixture_env
      (initial_world (Some (browser [(''authToken'', ''T''), (''userData'', fixture_stringify alice)]))))
   \<and> user (initialize fixture_env (initial_world (Some corrupt_browser))) = None
   \<and> window (initialize fixture_env (initial_world (Some corrupt_browser))) = Some (browser [])"
proof -
  let ?good = "browser [(''authToken'', ''T''), (''userData'', fixture_stringify alice)]"
  have g: "localStorage ?good ''authToken'' = Some ''T''" "''T'' \<noteq> []"
      "localStorage ?good ''userData'' = Some (fixture_stringify alice)" "fixture_stringify alice \<noteq> []"
    by (simp_all add: browser_def fixture_stringify_def)
  have b: "localStorage corrupt_browser ''authToken'' = Some ''T''" "''T'' \<noteq> []"
      "localStorage corrupt_browser ''userData'' = Some ''{bad''" "''{bad'' \<noteq> []"
    by (simp_all add: browser_def corrupt_browser_def)
  have "(localStorage corrupt_browser)(''authToken'' := None, ''userData'' := None) = Map.empty"
    by (rule ext) (simp add: browser_def corrupt_browser_def)
  then have e: "corrupt_browser\<lparr>localStorage :=
      (localStorage corrupt_browser)(''authToken'' := None, ''userData'' := None)\<rparr> = browser []"
    by (simp add: browser_def corrupt_browser_def)
  show ?thesis
    using initialize_restores_or_discards [OF g, of fixture_env alice "SyntaxError ''Unexpected token''"]
      initialize_restores_or_discards [OF b, of fixture_env alice "SyntaxError ''Unexpected token''"]
      fixture_parse_alice fixture_parse_bad e
    by (simp add: Authenticated_def)
qed

text \<open>
  The claim as stated fails where the token key is present but empty: both keys are there,
  the identity parses, and the session is not restored.
\<close>

theorem initialize_empty_token_counterexample:
  "localStorage (browser [(''authToken'', ''''), (''userData'', fixture_stringify alice)]) ''authToken'' \<noteq> None
   \<and> localStorage (browser [(''authToken'', ''''), (''userData'', fixture_stringify alice)]) ''userData'' \<noteq> None
   \<and> JSON_parse fixture_env (fixture_stringify alice) = Inr (Some alice)
   \<and> \<not> Authenticated (initialize fixture_env
         (initial_world (Some (browser [(''authToken'', ''''), (''userData'', fixture_stringify alice)]))))"
proof -
  let ?b = "browser [(''authToken'', ''''), (''userData'', fixture_stringify alice)]"
  have "window (initial_world (Some ?b)) = Some ?b"
    by (simp add: initial_world_def)
  moreover have "localStorage ?b ''authToken'' = None \<or> localStorage ?b ''userData'' = None
      \<or> localStorage ?b ''authToken'' = Some [] \<or> localStorage ?b ''userData'' = Some []"
    by (simp add: browser_def)
  ultimately have "restore fixture_env (initial_world (Some ?b)) = initial_world (Some ?b)"
    by (rule restore_guard_fails)
  then show ?thesis
    using fixture_parse_alice
    by (simp add: initialize_def setLoading_def emit_def initial_world_def Authenticated_def browser_def)
qed

text \<open>
  Claim C7: at every startup, initialize sets \<open>loading\<close> to false exactly once, after the
  attempt to restore the session, whatever that attempt did.

  For every environment and every browser (or none): the trace of the effect holds exactly
  one \<open>SetLoading\<close> event, it is the last event, and it sets the flag to false.
\<close>

theorem initialize_clears_loading_once:
  "loading (initialize env (initial_world win)) = False
   \<and> length (filter is_SetLoading (trace (initialize env (initial_world win)))) = 1
   \<and> last (trace (initialize env (initial_world win))) = SetLoading False"
  by (simp add: initialize_def setLoading_def emit_def restore_no_SetLoading initial_world_def)

text \<open>
  Claim C9: when exactly one of the two persisted keys is present at startup, initialize
  leaves the session empty and the storage as it was; the lone key stays.
\<close>

theorem initialize_lone_key:
  assumes "(localStorage win ''authToken'' = None) \<noteq> (localStorage win ''userData'' = None)"
  shows "user (initialize env (initial_world (Some win))) = None
         \<and> token (initialize env (initial_world (Some win))) = None
         \<and> window (initialize env (initial_world (Some win))) = Some win"
proof -
  have "window (initial_world (Some win)) = Some win"
    by (simp add: initial_world_def)
  moreover have "localStorage win ''authToken'' = None \<or> localStorage win ''userData'' = None
      \<or> localStorage win ''authToken'' = Some [] \<or> localStorage win ''userData'' = Some []"
    using assms by auto
  ultimately have "restore env (initial_world (Some win)) = initial_world (Some win)"
    by (rule restore_guard_fails)
  then show ?thesis
    by (simp add: initialize_def setLoading_def emit_def initial_world_def)
qed

theorem initialize_lone_key_witness:
  "localStorage (browser [(''authToken'', ''T'')]) ''authToken'' \<noteq> None
   \<and> localStorage (browser [(''authToken'', ''T'')]) ''userData'' = None
   \<and> Anonymous (initialize fixture_env (initial_world (Some (browser [(''authToken'', ''T'')]))))
   \<and> window (initialize fixture_env (initial_world (Some (browser [(''authToken'', ''T'')]))))
       = Some (browser [(''authToken'', ''T'')])"
proof -
  have h: "(localStorage (browser [(''authToken'', ''T'')]) ''authToken'' = None)
           \<noteq> (localStorage (browser [(''authToken'', ''T'')]) ''userData'' = None)"
    by (simp add: browser_def)
  show ?thesis
    using initialize_lone_key [OF h, of fixture_env]
    by (simp add: Anonymous_def browser_def)
qed

section \<open>Login\<close>

text \<open>
  Claim C3: a login whose response is \<open>{success:false}\<close>, or whose API call or response
  handling throws, returns false, propagates no exception, leaves the session Anonymous, and
  ends with \<open>loading\<close> false.

  On none of these paths does \<open>login\<close> clear anything, so a session that was Authenticated
  stays so. What holds for every starting state and every browser: the promise is fulfilled
  with false, \<open>loading\<close> is false, the identity and the browser's storage are as they were;
  and the token too is as it was when the API call throws, when the call resolves to no
  object (reading \<open>success\<close> throws), and when the response has \<open>success\<close> false. The one
  remaining case, a throw in the handling of a success payload without user, comes after
  \<open>setToken\<close>; the statement says nothing about the token there.
\<close>

theorem login_failure_keeps_session:
  assumes "authAPI_login env e p = outcome"
    and "outcome = Inl err \<or> outcome = Inr None
         \<or> (outcome = Inr (Some r) \<and> \<not> success r)
         \<or> outcome = Inr (Some \<lparr>success = True, data = Some \<lparr>accessToken = t, data_user = None\<rparr>\<rparr>)"
  shows "snd (login env e p w) = Inr False
         \<and> user (fst (login env e p w)) = user w
         \<and> window (fst (login env e p w)) = window w
         \<and> loading (fst (login env e p w)) = False
         \<and> (outcome \<noteq> Inr (Some \<lparr>success = True, data = Some \<lparr>accessToken = t, data_user = None\<rparr>\<rparr>)
              \<longrightarrow> token (fst (login env e p w)) = token w)"
proof -
  consider (throws) "outcome = Inl err" | (empty) "outcome = Inr None"
    | (refused) "outcome = Inr (Some r)" "\<not> success r"
    | (nouser) "outcome = Inr (Some \<lparr>success = True, data = Some \<lparr>accessToken = t, data_user = None\<rparr>\<rparr>)"
    using assms(2) by blast
  then show ?thesis
  proof cases
    case throws
    with assms(1) have "authAPI_login env e p = Inl err" by simp
    then show ?thesis by (simp add: login_rejected state_ops)
  next
    case empty
    with assms(1) have "authAPI_login env e p = Inr None" by simp
    then show ?thesis by (simp add: login_no_response state_ops)
  next
    case refused
    with assms(1) have "authAPI_login env e p = Inr (Some r)" and "usable (Some r) = Inr None"
      by (simp_all add: usable_def)
    then have "login env e p w = (setLoading False (setLoading True w), Inr False)"
      by (rule login_refused)
    then show ?thesis by (simp add: state_ops)
  next
    case nouser
    have "usable (Some \<lparr>success = True, data = Some \<lparr>accessToken = t, data_user = None\<rparr>\<rparr>)
            = Inr (Some \<lparr>accessToken = t, data_user = None\<rparr>)"
      by (simp add: usable_def)
    with assms(1) nouser have "login env e p w =
       (setLoading False
          (console_error ''Login error:''
             (TypeError ''Cannot read properties of undefined (reading _id)'')
             (setToken (Some (accessToken \<lparr>accessToken = t, data_user = None\<rparr>))
                (setLoading True w))), Inr False)"
      by (intro login_missing_user) simp_all
    with nouser show ?thesis by (simp add: state_ops)
  qed
qed

text \<open>
  A wrong password, an unreachable server, an empty answer and a payload without user, each
  from the fresh session in a browser that stores one other key.
\<close>

theorem login_failure_keeps_session_witness:
  "snd (login fixture_env ''a@x.com'' ''wrong'' (initial_world (Some (browser [(''lang'', ''en'')])))) = Inr False
   \<and> Anonymous (fst (login fixture_env ''a@x.com'' ''wrong'' (initial_world (Some (browser [(''lang'', ''en'')])))))
   \<and> window (fst (login fixture_env ''a@x.com'' ''wrong'' (initial_world (Some (browser [(''lang'', ''en'')])))))
       = Some (browser [(''lang'', ''en'')])
   \<and> loading (fst (login fixture_env ''a@x.com'' ''wrong'' (initial_world (Some (browser [(''lang'', ''en'')]))))) = False
   \<and> snd (login fixture_env ''offline@x.com'' ''secret'' (initial_world (Some (browser [(''lang'', ''en'')])))) = Inr False
   \<and> Anonymous (fst (login fixture_env ''offline@x.com'' ''secret'' (initial_world (Some (browser [(''lang'', ''en'')])))))
   \<and> loading (fst (login fixture_env ''offline@x.com'' ''secret'' (initial_world (Some (browser [(''lang'', ''en'')]))))) = False
   \<and> snd (login fixture_env ''empty@x.com'' ''secret'' (initial_world (Some (browser [(''lang'', ''en'')])))) = Inr False
   \<and> Anonymous (fst (login fixture_env ''empty@x.com'' ''secret'' (initial_world (Some (browser [(''lang'', ''en'')])))))
   \<and> snd (login fixture_env ''nouser@x.com'' ''secret'' (initial_world (Some (browser [(''lang'', ''en'')])))) = Inr False
   \<and> user (fst (login fixture_env ''nouser@x.com'' ''secret'' (initial_world (Some (browser [(''lang'', ''en'')]))))) = None
   \<and> window (fst (login fixture_env ''nouser@x.com'' ''secret'' (initial_world (Some (browser [(''lang'', ''en'')])))))
       = Some (browser [(''lang'', ''en'')])
   \<and> loading (fst (login fixture_env ''nouser@x.com'' ''secret'' (initial_world (Some (browser [(''lang'', ''en'')]))))) = False"
proof -
  let ?w = "initial_world (Some (browser [(''lang'', ''en'')]))"
  let ?nouser = "Inr (Some \<lparr>success = True, data = Some \<lparr>accessToken = ''T'', data_user = None\<rparr>\<rparr>)
                   :: exn + LoginData Response option"
  let ?refusal = "\<lparr>success = False, data = None :: LoginData option\<rparr>"
  have refused: "Inr (Some ?refusal) = Inl (Rejected ''Network Error'') \<or> Inr (Some ?refusal) = Inr None
      \<or> (Inr (Some ?refusal) = (Inr (Some ?refusal) :: exn + LoginData Response option) \<and> \<not> success ?refusal)
      \<or> Inr (Some ?refusal) = ?nouser"
    by simp
  have offline: "Inl (Rejected ''Network Error'') = Inl (Rejected ''Network Error'')
      \<or> Inl (Rejected ''Network Error'') = Inr None
      \<or> (Inl (Rejected ''Network Error'') = Inr (Some ?refusal) \<and> \<not> success ?refusal)
      \<or> Inl (Rejected ''Network Error'') = ?nouser"
    by simp
  have empty: "Inr None = Inl (Rejected ''Network Error'') \<or> Inr None = (Inr None :: exn + LoginData Response option)
      \<or> (Inr None = Inr (Some ?refusal) \<and> \<not> success ?refusal)
      \<or> Inr None = ?nouser"
    by simp
  have nouser: "?nouser = Inl (Rejected ''Network Error'') \<or> ?nouser = Inr None
      \<or> (?nouser = Inr (Some ?refusal) \<and> \<not> success ?refusal)
      \<or> ?nouser = ?nouser"
    by simp
  show ?thesis
    using login_failure_keeps_session [OF fixture_login_refused refused, of ?w]
      login_failure_keeps_session [OF fixture_login_offline offline, of ?w]
      login_failure_keeps_session [OF fixture_login_empty empty, of ?w]
      login_failure_keeps_session [OF fixture_login_nouser nouser, of ?w]
    by (simp add: Anonymous_def initial_world_fields)
qed

text \<open>
  The claim as stated fails for a session that is already signed in: the refused login
  returns false and the session is still Authenticated.
\<close>

theorem login_failure_counterexample:
  "authAPI_login fixture_env ''a@x.com'' ''wrong'' = Inr (Some \<lparr>success = False, data = None\<rparr>)
   \<and> snd (login fixture_env ''a@x.com'' ''wrong'' signed_in) = Inr False
   \<and> \<not> Anonymous (fst (login fixture_env ''a@x.com'' ''wrong'' signed_in))"
proof -
  have "usable (Some \<lparr>success = False, data = None :: LoginData option\<rparr>) = Inr None"
    by (simp add: usable_def)
  with fixture_login_refused have "login fixture_env ''a@x.com'' ''wrong'' signed_in
      = (setLoading False (setLoading True signed_in), Inr False)"
    by (rule login_refused)
  with fixture_login_refused show ?thesis
    by (simp add: Anonymous_def state_ops signed_in_session)
qed

text \<open>
  Claim C4: a login whose response is
  \<open>{success:true, data:{accessToken:"T", user:{id:"1", name:"A", email:"a@x.com", role:"user"}}}\<close>
  gives an Authenticated session with token \<open>T\<close> and that identity, writes the token key and
  the serialized identity key to durable storage, and returns true.

  The two writes sit under the \<open>typeof window !== 'undefined'\<close> guard. What holds: the
  promise is fulfilled with true, the token is \<open>T\<close>, the identity is the one given (its id
  taken from \<open>_id || id\<close>), \<open>loading\<close> is false, and where there is a window its storage gains
  exactly the two keys; where there is none, nothing is written.
\<close>

theorem login_success_sets_session:
  assumes "authAPI_login env e p =
             Inr (Some \<lparr>success = True, data = Some \<lparr>accessToken = ''T'', data_user = Some alice_raw\<rparr>\<rparr>)"
  shows "snd (login env e p w) = Inr True
         \<and> token (fst (login env e p w)) = Some ''T''
         \<and> user (fst (login env e p w)) = Some alice
         \<and> loading (fst (login env e p w)) = False
         \<and> window (fst (login env e p w)) =
             map_option (\<lambda>win. win\<lparr>localStorage :=
                 (localStorage win)(''authToken'' \<mapsto> ''T'', ''userData'' \<mapsto> JSON_stringify env alice)\<rparr>)
               (window w)"
  using assms
  by (cases "window w")
     (simp_all add: login_def login_try_def Let_def state_ops usable_def js_or_def truthy_def
        alice_def alice_raw_def)

theorem login_success_sets_session_witness:
  "snd (login fixture_env ''a@x.com'' ''secret'' (initial_world (Some (browser [])))) = Inr True
   \<and> Authenticated (fst (login fixture_env ''a@x.com'' ''secret'' (initial_world (Some (browser [])))))
   \<and> window (fst (login fixture_env ''a@x.com'' ''secret'' (initial_world (Some (browser [])))))
       = Some (browser [(''userData'', fixture_stringify alice), (''authToken'', ''T'')])"
proof -
  show ?thesis
    using login_success_sets_session [OF fixture_login_accepted, of "initial_world (Some (browser []))"]
    by (simp add: Authenticated_def initial_world_def browser_def fixture_env_def)
qed

text \<open>Without a window the same login succeeds and writes nothing.\<close>

theorem login_without_window_counterexample:
  "authAPI_login fixture_env ''a@x.com'' ''secret'' =
     Inr (Some \<lparr>success = True, data = Some \<lparr>accessToken = ''T'', data_user = Some alice_raw\<rparr>\<rparr>)
   \<and> snd (login fixture_env ''a@x.com'' ''secret'' (initial_world None)) = Inr True
   \<and> window (fst (login fixture_env ''a@x.com'' ''secret'' (initial_world None))) = None
   \<and> filter is_SetItem (trace (fst (login fixture_env ''a@x.com'' ''secret'' (initial_world None)))) = []"
  by (simp add: login_def login_try_def Let_def state_ops usable_def
      fixture_env_def fixture_login_def initial_world_def)

section \<open>Logout\<close>

text \<open>
  Claim C5: from every session state, logout gives an Anonymous session, removes both
  persisted keys, navigates to the login view exactly once, and cannot fail.

  Clearing the identity and the token is unconditional; the removals and the navigation sit
  under the \<open>typeof window !== 'undefined'\<close> guard. What holds for every state: identity and
  token are cleared; where there is a window, its storage loses exactly the two keys, its
  location becomes \<open>/auth/login\<close> and the call navigates exactly once; where there is none,
  the call navigates not at all. \<open>logout\<close> is a total function with no exception branch.
\<close>

theorem logout_clears_session:
  "user (logout w) = None
   \<and> token (logout w) = None
   \<and> window (logout w) =
       map_option (\<lambda>win. \<lparr>localStorage = (localStorage win)(''authToken'' := None, ''userData'' := None),
                           location_href = ''/auth/login''\<rparr>) (window w)
   \<and> filter is_Navigate (emitted w (logout w)) =
       (if window w = None then [] else [Navigate ''/auth/login''])"
  by (cases "window w") (simp_all add: logout_def Let_def state_ops emitted_def)

theorem logout_clears_session_witness:
  "Anonymous (logout signed_in)
   \<and> window (logout signed_in) = Some \<lparr>localStorage = Map.empty, location_href = ''/auth/login''\<rparr>
   \<and> filter is_Navigate (emitted signed_in (logout signed_in)) = [Navigate ''/auth/login'']"
proof -
  have "(map_of [(''userData'', fixture_stringify alice), (''authToken'', ''T'')])
          (''authToken'' := None, ''userData'' := None) = Map.empty"
    by (rule ext) simp
  then show ?thesis
    using logout_clears_session [of signed_in] signed_in_window
    by (simp add: Anonymous_def browser_def)
qed

text \<open>Without a window, logout clears the session and does not navigate.\<close>

theorem logout_without_window_counterexample:
  "filter is_Navigate (trace (logout (initial_world None))) = []
   \<and> window (logout (initial_world None)) = None"
  by (simp add: logout_def Let_def state_ops initial_world_def)

section \<open>Loading the dashboard\<close>

lemma Promise_all3_fulfilled: "Promise_all3 (Inr a) (Inr b) (Inr c) = Inr (a, b, c)"
  by (simp add: Promise_all3_def)

lemma Promise_all3_rejected: "isl p \<or> isl q \<or> isl r \<Longrightarrow> isl (Promise_all3 p q r)"
  by (auto simp add: Promise_all3_def split: sum.splits)

text \<open>A payload that is an array of records maps to the list of their view models.\<close>

lemma map_elements_records: "map_elements f (map Some xs) = Inr (map f xs)"
  by (induction xs) simp_all

lemma js_map_records: "js_map f (Array (map Some xs)) = Inr (map f xs)"
  by (simp add: js_map_def map_elements_records)

lemma js_map_null_element: "None \<in> set xs \<Longrightarrow> isl (map_elements f xs)"
proof (induction xs)
  case Nil
  then show ?case by simp
next
  case (Cons x xs)
  then show ?case by (cases x) (auto split: sum.splits)
qed

lemma usersOutcome_records:
  "usersOutcome (Some \<lparr>success = True, data = Some (Array (map Some us))\<rparr>) = Inr (Some (map mapUser us))"
  by (simp add: usersOutcome_def usable_def js_map_records)

lemma tasksOutcome_records:
  "tasksOutcome (Some \<lparr>success = True, data = Some (Array (map Some ts))\<rparr>) = Inr (Some (map mapTask ts))"
  by (simp add: tasksOutcome_def usable_def js_map_records)

lemma formsOutcome_records:
  "formsOutcome (Some \<lparr>success = True, data = Some (FormsArray (map Some fs))\<rparr>) = Inr (Some (map mapForm fs))"
  "formsOutcome (Some \<lparr>success = True, data = Some (FormsObject (Some (Array (map Some fs))))\<rparr>)
     = Inr (Some (map mapForm fs))"
  by (simp_all add: formsOutcome_def usable_def js_map_records)

lemma outcome_not_usable:
  "usersOutcome (Some \<lparr>success = False, data = du\<rparr>) = Inr None"
  "tasksOutcome (Some \<lparr>success = False, data = dt\<rparr>) = Inr None"
  "formsOutcome (Some \<lparr>success = False, data = df\<rparr>) = Inr None"
  by (simp_all add: usersOutcome_def tasksOutcome_def formsOutcome_def usable_def)

lemma formsOutcome_no_forms:
  "isl (formsOutcome (Some \<lparr>success = True, data = Some (FormsObject None)\<rparr>))"
  by (simp add: formsOutcome_def usable_def js_map_def)

text \<open>The \<open>try\<close> block either runs to its end or is left at the first throw.\<close>

lemma load_try_completes:
  assumes "usersOutcome ur = Inr us" and "tasksOutcome tr = Inr ts" and "formsOutcome fr = Inr fs"
  shows "snd (load_try ur tr fr d) = Inr ()"
    and "employees (fst (load_try ur tr fr d)) = (case us of None \<Rightarrow> employees d | Some xs \<Rightarrow> xs)"
    and "allTasks (fst (load_try ur tr fr d)) = (case ts of None \<Rightarrow> allTasks d | Some xs \<Rightarrow> xs)"
    and "forms (fst (load_try ur tr fr d)) = (case fs of None \<Rightarrow> forms d | Some xs \<Rightarrow> xs)"
  using assms by (simp_all add: load_try_def Let_def split: option.splits)

lemma load_try_throws:
  assumes "isl (usersOutcome ur) \<or> isl (tasksOutcome tr) \<or> isl (formsOutcome fr)"
  shows "isl (snd (load_try ur tr fr d))"
  using assms by (auto simp add: load_try_def Let_def split: sum.splits)

lemma loadDashboardData_caught:
  assumes "isl (snd (case Promise_all3 getAllUsers getAllTasks getAllForms of
                       Inl err \<Rightarrow> (d\<lparr>dash_loading := True\<rparr>, Inl err)
                     | Inr (u, t, f) \<Rightarrow> load_try u t f (d\<lparr>dash_loading := True\<rparr>)))"
  shows "employees (loadDashboardData getAllUsers getAllTasks getAllForms d) = []"
    and "allTasks (loadDashboardData getAllUsers getAllTasks getAllForms d) = []"
    and "forms (loadDashboardData getAllUsers getAllTasks getAllForms d) = []"
  using assms by (auto simp add: loadDashboardData_def Let_def split: sum.splits)

text \<open>
  Claim C6: when one of the three parallel dashboard requests fails, the others are not
  discarded: only the failing request's collection is defaulted to empty, and each
  succeeding request's data is kept and mapped into its view model.

  The three requests are joined with \<open>Promise.all\<close> inside one \<open>try\<close>, the responses are
  handled inside the same \<open>try\<close>, and the \<open>catch\<close> block empties all three collections. What
  holds: when all three requests resolve and handling the three responses does not throw,
  each response with \<open>success\<close> and data replaces its own collection with the mapped data,
  and each response without leaves its own collection as it was (empty on a first load);
  when any request rejects, or handling any of the responses throws (no response object, a
  payload that is no array, a \<open>null\<close> record), all three collections are emptied.
\<close>

theorem loadDashboardData_outcomes:
  "(getAllUsers = Inr ur \<and> getAllTasks = Inr tr \<and> getAllForms = Inr fr
      \<and> usersOutcome ur = Inr us \<and> tasksOutcome tr = Inr ts \<and> formsOutcome fr = Inr fs \<longrightarrow>
      employees (loadDashboardData getAllUsers getAllTasks getAllForms d) =
        (case us of None \<Rightarrow> employees d | Some xs \<Rightarrow> xs)
      \<and> allTasks (loadDashboardData getAllUsers getAllTasks getAllForms d) =
        (case ts of None \<Rightarrow> allTasks d | Some xs \<Rightarrow> xs)
      \<and> forms (loadDashboardData getAllUsers getAllTasks getAllForms d) =
        (case fs of None \<Rightarrow> forms d | Some xs \<Rightarrow> xs))
   \<and> (isl getAllUsers \<or> isl getAllTasks \<or> isl getAllForms
        \<or> (getAllUsers = Inr ur \<and> getAllTasks = Inr tr \<and> getAllForms = Inr fr
            \<and> (isl (usersOutcome ur) \<or> isl (tasksOutcome tr) \<or> isl (formsOutcome fr))) \<longrightarrow>
      employees (loadDashboardData getAllUsers getAllTasks getAllForms d) = []
      \<and> allTasks (loadDashboardData getAllUsers getAllTasks getAllForms d) = []
      \<and> forms (loadDashboardData getAllUsers getAllTasks getAllForms d) = [])"
proof (intro conjI impI)
  assume a: "isl getAllUsers \<or> isl getAllTasks \<or> isl getAllForms
      \<or> (getAllUsers = Inr ur \<and> getAllTasks = Inr tr \<and> getAllForms = Inr fr
          \<and> (isl (usersOutcome ur) \<or> isl (tasksOutcome tr) \<or> isl (formsOutcome fr)))"
  have caught: "isl (snd (case Promise_all3 getAllUsers getAllTasks getAllForms of
                       Inl err \<Rightarrow> (d\<lparr>dash_loading := True\<rparr>, Inl err)
                     | Inr (u, t, f) \<Rightarrow> load_try u t f (d\<lparr>dash_loading := True\<rparr>)))"
  proof (cases "isl getAllUsers \<or> isl getAllTasks \<or> isl getAllForms")
    case True
    then have "isl (Promise_all3 getAllUsers getAllTasks getAllForms)"
      by (rule Promise_all3_rejected)
    then show ?thesis
      by (cases "Promise_all3 getAllUsers getAllTasks getAllForms") simp_all
  next
    case False
    with a have r: "getAllUsers = Inr ur" "getAllTasks = Inr tr" "getAllForms = Inr fr"
      and t: "isl (usersOutcome ur) \<or> isl (tasksOutcome tr) \<or> isl (formsOutcome fr)"
      by simp_all
    from t have "isl (snd (load_try ur tr fr (d\<lparr>dash_loading := True\<rparr>)))"
      by (rule load_try_throws)
    then show ?thesis
      by (simp add: r Promise_all3_fulfilled)
  qed
  show "employees (loadDashboardData getAllUsers getAllTasks getAllForms d) = []"
    using caught by (rule loadDashboardData_caught)
  show "allTasks (loadDashboardData getAllUsers getAllTasks getAllForms d) = []"
    using caught by (rule loadDashboardData_caught)
  show "forms (loadDashboardData getAllUsers getAllTasks getAllForms d) = []"
    using caught by (rule loadDashboardData_caught)
next
  assume a: "getAllUsers = Inr ur \<and> getAllTasks = Inr tr \<and> getAllForms = Inr fr
      \<and> usersOutcome ur = Inr us \<and> tasksOutcome tr = Inr ts \<and> formsOutcome fr = Inr fs"
  then have p: "Promise_all3 getAllUsers getAllTasks getAllForms = Inr (ur, tr, fr)"
    by (simp add: Promise_all3_fulfilled)
  from a have o: "usersOutcome ur = Inr us" "tasksOutcome tr = Inr ts" "formsOutcome fr = Inr fs"
    by simp_all
  note completed = load_try_completes [OF o, of "d\<lparr>dash_loading := True\<rparr>"]
  show "employees (loadDashboardData getAllUsers getAllTasks getAllForms d) =
          (case us of None \<Rightarrow> employees d | Some xs \<Rightarrow> xs)"
    by (simp add: loadDashboardData_def p Let_def completed split: option.splits)
  show "allTasks (loadDashboardData getAllUsers getAllTasks getAllForms d) =
          (case ts of None \<Rightarrow> allTasks d | Some xs \<Rightarrow> xs)"
    by (simp add: loadDashboardData_def p Let_def completed split: option.splits)
  show "forms (loadDashboardData getAllUsers getAllTasks getAllForms d) =
          (case fs of None \<Rightarrow> forms d | Some xs \<Rightarrow> xs)"
    by (simp add: loadDashboardData_def p Let_def completed split: option.splits)
qed

text \<open>
  A first load where the users request reports failure while tasks and forms succeed; one
  where the users request rejects; and one where all three resolve and the forms payload is
  an object without \<open>forms\<close>, so that mapping it throws after the tasks were stored.
\<close>

theorem loadDashboardData_outcomes_witness:
  "employees (loadDashboardData (Inr (Some \<lparr>success = False, data = None\<rparr>))
       (Inr (Some \<lparr>success = True, data = Some (Array [Some sample_task])\<rparr>))
       (Inr (Some \<lparr>success = True, data = Some (FormsArray [])\<rparr>)) initial_dashboard) = []
   \<and> allTasks (loadDashboardData (Inr (Some \<lparr>success = False, data = None\<rparr>))
       (Inr (Some \<lparr>success = True, data = Some (Array [Some sample_task])\<rparr>))
       (Inr (Some \<lparr>success = True, data = Some (FormsArray [])\<rparr>)) initial_dashboard) = [mapTask sample_task]
   \<and> allTasks (loadDashboardData (Inl (Rejected ''Network Error''))
       (Inr (Some \<lparr>success = True, data = Some (Array [Some sample_task])\<rparr>))
       (Inr (Some \<lparr>success = True, data = Some (FormsArray [])\<rparr>)) initial_dashboard) = []
   \<and> allTasks (loadDashboardData (Inr (Some \<lparr>success = False, data = None\<rparr>))
       (Inr (Some \<lparr>success = True, data = Some (Array [Some sample_task])\<rparr>))
       (Inr (Some \<lparr>success = True, data = Some (FormsObject None)\<rparr>)) initial_dashboard) = []"
proof -
  let ?users = "Some \<lparr>success = False, data = None :: RawUser payload option\<rparr>"
  let ?tasks = "Some \<lparr>success = True, data = Some (Array [Some sample_task])\<rparr>"
  let ?forms = "Some \<lparr>success = True, data = Some (FormsArray [])\<rparr>"
  let ?broken = "Some \<lparr>success = True, data = Some (FormsObject None)\<rparr>"
  have u: "usersOutcome ?users = Inr None"
    by (rule outcome_not_usable)
  have t: "tasksOutcome ?tasks = Inr (Some [mapTask sample_task])"
    using tasksOutcome_records [of "[sample_task]"] by simp
  have f: "formsOutcome ?forms = Inr (Some [])"
    using formsOutcome_records(1) [of "[]"] by simp
  have b: "isl (formsOutcome ?broken)"
    by (rule formsOutcome_no_forms)
  show ?thesis
    using loadDashboardData_outcomes [of "Inr ?users" ?users "Inr ?tasks" ?tasks "Inr ?forms" ?forms
        None "Some [mapTask sample_task]" "Some []" initial_dashboard]
      loadDashboardData_outcomes [of "Inl (Rejected ''Network Error'')" ?users "Inr ?tasks" ?tasks
        "Inr ?forms" ?forms None None None initial_dashboard]
      loadDashboardData_outcomes [of "Inr ?users" ?users "Inr ?tasks" ?tasks "Inr ?broken" ?broken
        None None None initial_dashboard]
      u t f b
    by (simp add: initial_dashboard_def)
qed

text \<open>
  The claim as stated fails when a request rejects: the tasks request succeeded with one
  task, and the task list is empty after the load.
\<close>

theorem dashboard_rejection_counterexample:
  "tasksOutcome (Some \<lparr>success = True, data = Some (Array [Some sample_task])\<rparr>)
     = Inr (Some [mapTask sample_task])
   \<and> allTasks (loadDashboardData (Inl (Rejected ''Network Error''))
       (Inr (Some \<lparr>success = True, data = Some (Array [Some sample_task])\<rparr>))
       (Inr (Some \<lparr>success = True, data = Some (FormsArray [])\<rparr>)) initial_dashboard) = []"
  by (simp add: loadDashboardData_def Promise_all3_def tasksOutcome_def usable_def js_map_def)

section \<open>Progress and the hook\<close>

text \<open>
  Claim C8: for the empty task collection the onboarding-progress computation returns 0 and
  does not divide by zero or fault.
\<close>

theorem progress_of_no_tasks: "calculateOnboardingProgress isDone [] = Inr 0"
  by (simp add: calculateOnboardingProgress_def)

text \<open>
  Claim C10: called outside any AuthProvider, \<open>useAuth\<close> throws an error with the message
  \<open>useAuth must be used within an AuthProvider\<close>; called inside one, it returns the value of
  the nearest provider and does not throw.
\<close>

theorem useAuth_provider:
  "useAuth [] = Inl (Error ''useAuth must be used within an AuthProvider'')
   \<and> useAuth (v # outer) = Inr v"
  by (simp add: useAuth_def useContext_def)

end
